theory Spec2Isabelle
  imports Complex_Main "HOL-Library.Log_Nat"
begin

section \<open>Offloading cost formulas of \<open>utils.py\<close>\<close>

text \<open>
  The module is a flat collection of pure functions on Python floats. It is read twice.

  The exact reading takes the scalars as \<^typ>\<open>real\<close> and keeps what Python does beyond
  returning a number: the true division \<open>a / b\<close> raises \<open>ZeroDivisionError\<close> when \<open>b\<close>
  is zero, and \<open>math.log2\<close> raises \<open>ValueError\<close> on an argument that is not positive. A
  function that divides or takes a logarithm returns \<open>py_error + real\<close>; a function that
  only adds, multiplies and compares returns a \<^typ>\<open>real\<close>. This reading serves the
  properties that the double-precision evaluation shares with it: which expression a
  function evaluates, which calls are the same call, which calls raise.

  The binary64 reading computes as CPython does on \<open>float\<close> arguments: every operation
  is rounded to the nearest double, ties to even, a result beyond the range is an infinity,
  and \<open>inf * 0\<close> is NaN. It serves the properties that rounding or overflow decide.
\<close>

section \<open>The exact reading\<close>

subsection \<open>Python primitives\<close>

datatype py_error = ZeroDivisionError | ValueError

definition py_truediv :: "real \<Rightarrow> real \<Rightarrow> py_error + real" where
  "py_truediv a b = (if b = 0 then Inl ZeroDivisionError else Inr (a / b))"

definition py_log2 :: "real \<Rightarrow> py_error + real" where
  "py_log2 a = (if a \<le> 0 then Inl ValueError else Inr (log 2 a))"

text \<open>
  The builtin \<open>max(a, b)\<close> keeps its first argument and replaces it only by a strictly
  greater one.
\<close>

definition py_max :: "real \<Rightarrow> real \<Rightarrow> real" where
  "py_max a b = (if b > a then b else a)"

subsection \<open>Computation model\<close>

definition calculate_task_execution_time_on_local ::
  "real \<Rightarrow> real \<Rightarrow> real \<Rightarrow> real \<Rightarrow> py_error + real" where
  "calculate_task_execution_time_on_local C d F x = py_truediv ((1 - x) * C * d) F"

definition calculate_full_task_execution_time_on_local ::
  "real \<Rightarrow> real \<Rightarrow> real \<Rightarrow> py_error + real" where
  "calculate_full_task_execution_time_on_local C d F =
     calculate_task_execution_time_on_local C d F 0"

definition calculate_task_execution_energy_consumption_on_local ::
  "real \<Rightarrow> real \<Rightarrow> real \<Rightarrow> real \<Rightarrow> real" where
  "calculate_task_execution_energy_consumption_on_local C d theta_exe x =
     (let b = C * d in b * (1 - x) * theta_exe)"

definition calculate_full_task_execution_energy_consumption_on_local ::
  "real \<Rightarrow> real \<Rightarrow> real \<Rightarrow> real" where
  "calculate_full_task_execution_energy_consumption_on_local C d theta_exe =
     calculate_task_execution_energy_consumption_on_local C d theta_exe 0"

definition calculate_partial_task_execution_time_on_mec ::
  "real \<Rightarrow> real \<Rightarrow> real \<Rightarrow> real \<Rightarrow> real \<Rightarrow> py_error + real" where
  "calculate_partial_task_execution_time_on_mec x d omega C f =
     (let I = x * d in py_truediv (C * (1 - omega) * I) f)"

definition calculate_partial_task_execution_time_on_id ::
  "real \<Rightarrow> real \<Rightarrow> real \<Rightarrow> real \<Rightarrow> real \<Rightarrow> py_error + real" where
  "calculate_partial_task_execution_time_on_id C omega x d f_id =
     (let I = x * d in py_truediv (C * omega * I) f_id)"

subsection \<open>Communication model\<close>

definition calculate_transmission_rate :: "real \<Rightarrow> real \<Rightarrow> py_error + real" where
  "calculate_transmission_rate B_m sinr =
     (case py_log2 (1 + sinr) of
        Inl e \<Rightarrow> Inl e
      | Inr l \<Rightarrow> Inr (B_m * l))"

definition calculate_eu_to_bs_transmission_time ::
  "real \<Rightarrow> real \<Rightarrow> real \<Rightarrow> py_error + real" where
  "calculate_eu_to_bs_transmission_time x d R_i_bs = py_truediv (x * d) R_i_bs"

definition calculate_bs_to_id_transmission_time ::
  "real \<Rightarrow> real \<Rightarrow> real \<Rightarrow> real \<Rightarrow> py_error + real" where
  "calculate_bs_to_id_transmission_time omega x d R_bs_j = py_truediv (omega * x * d) R_bs_j"

definition calculate_eu_transmission_energy :: "real \<Rightarrow> real \<Rightarrow> real \<Rightarrow> real" where
  "calculate_eu_transmission_energy P_tran_i_bs t_tran_i_bs theta_tran =
     P_tran_i_bs * t_tran_i_bs * theta_tran"

definition calculate_bs_transmission_energy :: "real \<Rightarrow> real \<Rightarrow> real \<Rightarrow> real" where
  "calculate_bs_transmission_energy P_tran_bs_j t_tran_bs_j theta_tran =
     P_tran_bs_j * t_tran_bs_j * theta_tran"

definition calculate_offloading_delay :: "real \<Rightarrow> real \<Rightarrow> real \<Rightarrow> real \<Rightarrow> real" where
  "calculate_offloading_delay t_tran_i_bs t_mec t_id t_tran_bs_j =
     t_tran_i_bs + py_max t_mec (t_id + t_tran_bs_j)"

definition calculate_total_task_time :: "real \<Rightarrow> real \<Rightarrow> real" where
  "calculate_total_task_time t_local t_off = py_max t_local t_off"

section \<open>The binary64 reading\<close>

subsection \<open>Doubles and rounding\<close>

text \<open>
  A Python \<open>float\<close> is an IEEE 754 binary64 value: a finite number, one of the two
  infinities, or NaN. A finite value is carried as the real number it denotes. The sign of
  zero is not carried: the functions of the module can tell \<open>-0.0\<close> from \<open>0.0\<close> neither
  by a comparison nor by the test for a zero divisor.
\<close>

datatype f64 = Fin real | PInf | NInf | NaN

text \<open>Rounding to an integer, to the nearest, a tie to the even neighbour.\<close>

definition round_half_even :: "real \<Rightarrow> int" where
  "round_half_even q =
     (let n = \<lfloor>q\<rfloor>; d = q - of_int n
      in if d < 1 / 2 then n else if 1 / 2 < d then n + 1 else if even n then n else n + 1)"

text \<open>
  The binade of \<open>r \<noteq> 0\<close> is the \<open>E\<close> with \<open>2^E \<le> |r| < 2^(E+1)\<close>. It is read off the bit
  length of the integer part of \<open>|r|\<close>, and below \<open>1\<close> off that of the reciprocal.
\<close>

definition binade :: "real \<Rightarrow> int" where
  "binade r = (if 1 \<le> \<bar>r\<bar> then bitlen \<lfloor>\<bar>r\<bar>\<rfloor> - 1 else - bitlen (\<lceil>1 / \<bar>r\<bar>\<rceil> - 1))"

text \<open>
  Rounding a real to a double. In the binade \<open>E\<close> the doubles are the multiples of \<open>2^e\<close>
  with \<open>e = E - 52\<close> (53 significant bits), and the multiples of \<open>2^(-1074)\<close> in the
  subnormal range. The rounded value is an infinity as soon as it reaches \<open>2^1024\<close>.
\<close>

definition huge :: real where
  "huge = 2 ^ 1024"

definition overflow_check :: "real \<Rightarrow> real \<Rightarrow> f64" where
  "overflow_check r v = (if huge \<le> \<bar>v\<bar> then (if 0 < r then PInf else NInf) else Fin v)"

definition rnd :: "real \<Rightarrow> f64" where
  "rnd r =
     (if r = 0 then Fin 0
      else let e = max (binade r - 52) (- 1074)
           in overflow_check r (of_int (round_half_even (r / 2 powi e)) * 2 powi e))"

text \<open>A decimal literal such as \<open>0.1\<close>, and \<open>float\<close> of a number, is the nearest double.\<close>

definition py_float :: "real \<Rightarrow> f64" where
  "py_float r = rnd r"

subsection \<open>Arithmetic of Python floats\<close>


fun fadd :: "f64 \<Rightarrow> f64 \<Rightarrow> f64" where
  "fadd (Fin a) (Fin b) = rnd (a + b)"
| "fadd NaN y = NaN"
| "fadd x NaN = NaN"
| "fadd PInf NInf = NaN"
| "fadd NInf PInf = NaN"
| "fadd PInf y = PInf"
| "fadd x PInf = PInf"
| "fadd NInf y = NInf"
| "fadd x NInf = NInf"


fun fmul :: "f64 \<Rightarrow> f64 \<Rightarrow> f64" where
  "fmul (Fin a) (Fin b) = rnd (a * b)"
| "fmul NaN y = NaN"
| "fmul x NaN = NaN"
| "fmul (Fin a) PInf = (if a = 0 then NaN else if 0 < a then PInf else NInf)"
| "fmul (Fin a) NInf = (if a = 0 then NaN else if 0 < a then NInf else PInf)"
| "fmul PInf (Fin b) = (if b = 0 then NaN else if 0 < b then PInf else NInf)"
| "fmul NInf (Fin b) = (if b = 0 then NaN else if 0 < b then NInf else PInf)"
| "fmul PInf PInf = PInf"
| "fmul PInf NInf = NInf"
| "fmul NInf PInf = NInf"
| "fmul NInf NInf = PInf"

text \<open>
  The quotient of two floats with a divisor that is not zero; the true division below
  raises before it is reached with a zero divisor.
\<close>

fun fdiv :: "f64 \<Rightarrow> f64 \<Rightarrow> f64" where
  "fdiv (Fin a) (Fin b) = rnd (a / b)"
| "fdiv NaN y = NaN"
| "fdiv x NaN = NaN"
| "fdiv (Fin a) PInf = Fin 0"
| "fdiv (Fin a) NInf = Fin 0"
| "fdiv PInf (Fin b) = (if 0 < b then PInf else NInf)"
| "fdiv NInf (Fin b) = (if 0 < b then NInf else PInf)"
| "fdiv PInf PInf = NaN"
| "fdiv PInf NInf = NaN"
| "fdiv NInf PInf = NaN"
| "fdiv NInf NInf = NaN"

definition py_truediv_f64 :: "f64 \<Rightarrow> f64 \<Rightarrow> py_error + f64" where
  "py_truediv_f64 a b = (if b = Fin 0 then Inl ZeroDivisionError else Inr (fdiv a b))"



subsection \<open>Computation model on doubles\<close>









subsection \<open>Communication model on doubles\<close>

definition calculate_sinr_eu_to_bs_f64 ::
  "f64 \<Rightarrow> f64 \<Rightarrow> f64 \<Rightarrow> f64 \<Rightarrow> py_error + f64" where
  "calculate_sinr_eu_to_bs_f64 P_tran_i_bs G_i_bs sigma_sq interference_sum =
     py_truediv_f64 (fmul P_tran_i_bs G_i_bs) (fadd sigma_sq interference_sum)"

definition calculate_sinr_bs_to_id_f64 :: "f64 \<Rightarrow> f64 \<Rightarrow> f64 \<Rightarrow> py_error + f64" where
  "calculate_sinr_bs_to_id_f64 P_tran_bs_j G_bs_j sigma_sq =
     py_truediv_f64 (fmul P_tran_bs_j G_bs_j) sigma_sq"







subsection \<open>Reading inputs and results\<close>




text \<open>
  An input is a non-negative (positive) double when it is finite, \<open>\<ge> 0\<close> (\<open>> 0\<close>), and
  rounding leaves it unchanged.
\<close>

fun nonneg_double :: "f64 \<Rightarrow> bool" where
  "nonneg_double (Fin v) = (0 \<le> v \<and> rnd v = Fin v)"
| "nonneg_double PInf = False"
| "nonneg_double NInf = False"
| "nonneg_double NaN = False"

fun pos_double :: "f64 \<Rightarrow> bool" where
  "pos_double (Fin v) = (0 < v \<and> rnd v = Fin v)"
| "pos_double PInf = False"
| "pos_double NInf = False"
| "pos_double NaN = False"






section \<open>Properties of the exact reading\<close>

subsection \<open>Primitives\<close>

lemma py_truediv_nonzero: "b \<noteq> 0 \<Longrightarrow> py_truediv a b = Inr (a / b)"
  by (simp add: py_truediv_def)

lemma py_truediv_zero: "py_truediv a 0 = Inl ZeroDivisionError"
  by (simp add: py_truediv_def)

lemma py_max_is_max: "py_max a b = max a b"
  by (simp add: py_max_def max_def)

subsection \<open>Local execution\<close>

text \<open>
  C1. For \<open>C, d \<ge> 0\<close>, \<open>F > 0\<close> and \<open>x\<close> in \<open>[0,1]\<close> the local execution time returned is
  \<open>(1 - x) * C * d / F\<close>. For \<open>C = 1000\<close>, \<open>d = 1e6\<close>, \<open>F = 1e9\<close>, \<open>x = 0.3\<close> it is \<open>0.7\<close>,
  and the full local execution time for the same \<open>C, d, F\<close> is \<open>1\<close>.
\<close>

theorem local_time_formula:
  assumes "0 \<le> C" and "0 \<le> d" and "0 < F" and "0 \<le> x" and "x \<le> 1"
  shows "calculate_task_execution_time_on_local C d F x = Inr ((1 - x) * C * d / F)
       \<and> calculate_task_execution_time_on_local 1000 (10 ^ 6) (10 ^ 9) (3 / 10) = Inr (7 / 10)
       \<and> calculate_full_task_execution_time_on_local 1000 (10 ^ 6) (10 ^ 9) = Inr 1"
proof -
  from \<open>0 < F\<close> have "calculate_task_execution_time_on_local C d F x = Inr ((1 - x) * C * d / F)"
    by (simp add: calculate_task_execution_time_on_local_def py_truediv_def)
  moreover have "calculate_task_execution_time_on_local 1000 (10 ^ 6) (10 ^ 9) (3 / 10)
      = Inr (7 / 10)"
    by (simp add: calculate_task_execution_time_on_local_def py_truediv_def)
  moreover have "calculate_full_task_execution_time_on_local 1000 (10 ^ 6) (10 ^ 9) = Inr 1"
    by (simp add: calculate_full_task_execution_time_on_local_def
        calculate_task_execution_time_on_local_def py_truediv_def)
  ultimately show ?thesis by blast
qed

theorem local_time_formula_witness:
  "(0::real) \<le> 2 \<and> (0::real) \<le> 3 \<and> (0::real) < 4 \<and> (0::real) \<le> 1 / 2 \<and> (1::real) / 2 \<le> 1
   \<and> calculate_task_execution_time_on_local 2 3 4 (1 / 2) = Inr (3 / 4)"
  using local_time_formula [of 2 3 4 "1 / 2"] by simp

text \<open>
  C2. On the valid domain (\<open>C, d \<ge> 0\<close>, \<open>F > 0\<close>, \<open>theta_exe \<ge> 0\<close>) the full local
  execution time is the partial one at offloading ratio \<open>0\<close>, and the full local execution
  energy is the partial one at offloading ratio \<open>0\<close>.
\<close>

theorem full_local_is_partial_at_zero:
  assumes "0 \<le> C" and "0 \<le> d" and "0 < F" and "0 \<le> theta_exe"
  shows "calculate_full_task_execution_time_on_local C d F
           = calculate_task_execution_time_on_local C d F 0
       \<and> calculate_full_task_execution_energy_consumption_on_local C d theta_exe
           = calculate_task_execution_energy_consumption_on_local C d theta_exe 0"
  by (simp add: calculate_full_task_execution_time_on_local_def
      calculate_full_task_execution_energy_consumption_on_local_def)

theorem full_local_is_partial_at_zero_witness:
  "(0::real) \<le> 1000 \<and> (0::real) \<le> 10 ^ 6 \<and> (0::real) < 10 ^ 9 \<and> (0::real) \<le> 2
   \<and> calculate_full_task_execution_time_on_local 1000 (10 ^ 6) (10 ^ 9)
        = calculate_task_execution_time_on_local 1000 (10 ^ 6) (10 ^ 9) 0
   \<and> calculate_full_task_execution_energy_consumption_on_local 1000 (10 ^ 6) 2
        = calculate_task_execution_energy_consumption_on_local 1000 (10 ^ 6) 2 0"
  using full_local_is_partial_at_zero [of 1000 "10 ^ 6" "10 ^ 9" 2] by simp

text \<open>What the two full variants compute, and that the identity needs no domain.\<close>

lemma full_local_time_value:
  "F \<noteq> 0 \<Longrightarrow> calculate_full_task_execution_time_on_local C d F = Inr (C * d / F)"
  by (simp add: calculate_full_task_execution_time_on_local_def
      calculate_task_execution_time_on_local_def py_truediv_def)

lemma full_local_energy_value:
  "calculate_full_task_execution_energy_consumption_on_local C d theta_exe = C * d * theta_exe"
  by (simp add: calculate_full_task_execution_energy_consumption_on_local_def
      calculate_task_execution_energy_consumption_on_local_def)

subsection \<open>Delay and completion time\<close>

text \<open>
  C4. For all real inputs the offloading delay returned is
  \<open>t_tran_i_bs + max(t_mec, t_id + t_tran_bs_j)\<close>; for \<open>0.1\<close>, \<open>0.5\<close>, \<open>0.2\<close>, \<open>0.05\<close>
  it is \<open>0.6\<close>.
\<close>

theorem offloading_delay_formula:
  "calculate_offloading_delay t_tran_i_bs t_mec t_id t_tran_bs_j
     = t_tran_i_bs + max t_mec (t_id + t_tran_bs_j)
   \<and> calculate_offloading_delay (1 / 10) (5 / 10) (2 / 10) (5 / 100) = 6 / 10"
  by (simp add: calculate_offloading_delay_def py_max_def max_def)

text \<open>
  C5. For all real \<open>a, b \<ge> 0\<close> the total task time of \<open>a\<close> and \<open>b\<close> is \<open>max a b\<close>, and
  taking the total task time of \<open>a\<close> and of that result again changes nothing.
\<close>

theorem total_task_time_max_idempotent:
  assumes "0 \<le> a" and "0 \<le> b"
  shows "calculate_total_task_time a b = max a b
       \<and> calculate_total_task_time a (calculate_total_task_time a b)
           = calculate_total_task_time a b"
  by (simp add: calculate_total_task_time_def py_max_def max_def)

theorem total_task_time_max_idempotent_witness:
  "(0::real) \<le> 2 \<and> (0::real) \<le> 5
   \<and> calculate_total_task_time 2 5 = 5
   \<and> calculate_total_task_time 2 (calculate_total_task_time 2 5) = 5"
  using total_task_time_max_idempotent [of 2 5] by simp

subsection \<open>Transmission rate\<close>

text \<open>
  C7. For every bandwidth \<open>B > 0\<close> the transmission rate at SINR \<open>0\<close> is exactly \<open>0\<close>, and
  at every SINR \<open>\<ge> 0\<close> the rate returned is \<open>B * log2(1 + sinr)\<close>, a non-negative number.
\<close>

theorem transmission_rate_zero_and_nonneg:
  assumes "0 < B" and "0 \<le> sinr"
  shows "calculate_transmission_rate B 0 = Inr 0
       \<and> calculate_transmission_rate B sinr = Inr (B * log 2 (1 + sinr))
       \<and> 0 \<le> B * log 2 (1 + sinr)"
proof (intro conjI)
  show "calculate_transmission_rate B 0 = Inr 0"
    by (simp add: calculate_transmission_rate_def py_log2_def)
  from \<open>0 \<le> sinr\<close> show "calculate_transmission_rate B sinr = Inr (B * log 2 (1 + sinr))"
    by (simp add: calculate_transmission_rate_def py_log2_def)
  from \<open>0 \<le> sinr\<close> have "0 \<le> log 2 (1 + sinr)"
    by simp
  with \<open>0 < B\<close> show "0 \<le> B * log 2 (1 + sinr)"
    by simp
qed

theorem transmission_rate_zero_and_nonneg_witness:
  "(0::real) < 5 \<and> (0::real) \<le> 1
   \<and> calculate_transmission_rate 5 0 = Inr 0
   \<and> calculate_transmission_rate 5 1 = Inr 5"
  using transmission_rate_zero_and_nonneg [of 5 1] by simp

subsection \<open>Calls outside the domain\<close>

text \<open>
  C8. A call outside the domain does not return a number. With a rate of zero the two
  transmission times raise \<open>ZeroDivisionError\<close>, and so do the three execution times and
  the full local execution time with a computing power of zero; with \<open>sinr \<le> -1\<close> the
  argument of the logarithm is not positive and the transmission rate raises
  \<open>ValueError\<close>. The error comes from the division or the logarithm itself, and no value
  stands in for it.
\<close>

theorem domain_violation_raises:
  assumes "sinr \<le> - 1"
  shows "calculate_eu_to_bs_transmission_time x d 0 = Inl ZeroDivisionError
       \<and> calculate_bs_to_id_transmission_time omega x d 0 = Inl ZeroDivisionError
       \<and> calculate_task_execution_time_on_local C d 0 x = Inl ZeroDivisionError
       \<and> calculate_full_task_execution_time_on_local C d 0 = Inl ZeroDivisionError
       \<and> calculate_partial_task_execution_time_on_mec x d omega C 0 = Inl ZeroDivisionError
       \<and> calculate_partial_task_execution_time_on_id C omega x d 0 = Inl ZeroDivisionError
       \<and> calculate_transmission_rate B sinr = Inl ValueError"
proof (intro conjI)
  show "calculate_eu_to_bs_transmission_time x d 0 = Inl ZeroDivisionError"
    by (simp add: calculate_eu_to_bs_transmission_time_def py_truediv_zero)
  show "calculate_bs_to_id_transmission_time omega x d 0 = Inl ZeroDivisionError"
    by (simp add: calculate_bs_to_id_transmission_time_def py_truediv_zero)
  show "calculate_task_execution_time_on_local C d 0 x = Inl ZeroDivisionError"
    by (simp add: calculate_task_execution_time_on_local_def py_truediv_zero)
  show "calculate_full_task_execution_time_on_local C d 0 = Inl ZeroDivisionError"
    by (simp add: calculate_full_task_execution_time_on_local_def
        calculate_task_execution_time_on_local_def py_truediv_zero)
  show "calculate_partial_task_execution_time_on_mec x d omega C 0 = Inl ZeroDivisionError"
    by (simp add: calculate_partial_task_execution_time_on_mec_def py_truediv_zero)
  show "calculate_partial_task_execution_time_on_id C omega x d 0 = Inl ZeroDivisionError"
    by (simp add: calculate_partial_task_execution_time_on_id_def py_truediv_zero)
  from assms show "calculate_transmission_rate B sinr = Inl ValueError"
    by (simp add: calculate_transmission_rate_def py_log2_def)
qed

theorem domain_violation_raises_witness:
  "(- 2::real) \<le> - 1
   \<and> calculate_eu_to_bs_transmission_time (1 / 2) 8 0 = Inl ZeroDivisionError
   \<and> calculate_task_execution_time_on_local 3 8 0 (1 / 2) = Inl ZeroDivisionError
   \<and> calculate_transmission_rate 5 (- 2) = Inl ValueError"
  using domain_violation_raises [of "- 2" "1 / 2" 8 _ 3 5] by simp

subsection \<open>Energies\<close>

text \<open>
  C9. The EU and the BS transmission energy are the same function: for every power, time
  and \<open>theta_tran\<close> both return \<open>power * time * theta_tran\<close>.
\<close>

theorem transmission_energies_equal:
  "calculate_eu_transmission_energy P_tran t_tran theta_tran
     = calculate_bs_transmission_energy P_tran t_tran theta_tran
   \<and> calculate_eu_transmission_energy P_tran t_tran theta_tran = P_tran * t_tran * theta_tran
   \<and> calculate_bs_transmission_energy P_tran t_tran theta_tran = P_tran * t_tran * theta_tran"
  by (simp add: calculate_eu_transmission_energy_def calculate_bs_transmission_energy_def)

section \<open>Properties of the binary64 reading\<close>

subsection \<open>Rounding\<close>



lemma rhe_ge: "of_int N \<le> q \<Longrightarrow> N \<le> round_half_even q"
  unfolding round_half_even_def Let_def
  by (auto simp: le_floor_iff; linarith)


lemma pow2_less_imp: "(2::real) powi a < 2 powi b \<Longrightarrow> a < b"
proof (rule ccontr)
  assume lt: "(2::real) powi a < 2 powi b" and "\<not> a < b"
  hence "b \<le> a" by simp
  hence "(2::real) powi b \<le> 2 powi a" by (intro power_int_increasing) simp_all
  with lt show False by simp
qed



lemma binade_bounds:
  assumes "r \<noteq> 0"
  shows "2 powi binade r \<le> \<bar>r\<bar> \<and> \<bar>r\<bar> < 2 powi (binade r + 1)"
proof (cases "1 \<le> \<bar>r\<bar>")
  case True
  define n where "n = \<lfloor>\<bar>r\<bar>\<rfloor>"
  have npos: "0 < n" using True unfolding n_def by simp
  from bitlen_bounds [OF npos]
  have lo: "2 ^ nat (bitlen n - 1) \<le> n" and hi: "n < 2 ^ nat (bitlen n)" by simp_all
  have bl: "1 \<le> bitlen n" using npos by (auto simp: bitlen_alt_def)
  have b: "binade r = bitlen n - 1" using True by (simp add: binade_def n_def)
  have "(2::real) powi (bitlen n - 1) = 2 ^ nat (bitlen n - 1)"
    using bl by (simp add: power_int_nonneg_exp)
  also have "\<dots> = of_int (2 ^ nat (bitlen n - 1))" by simp
  also have "\<dots> \<le> of_int n" using lo by (simp only: of_int_le_iff)
  also have "of_int n \<le> \<bar>r\<bar>" unfolding n_def by simp
  finally have 1: "2 powi binade r \<le> \<bar>r\<bar>" unfolding b .
  have "\<bar>r\<bar> < of_int (n + 1)" unfolding n_def by linarith
  also have "n + 1 \<le> 2 ^ nat (bitlen n)" using hi by simp
  hence "real_of_int (n + 1) \<le> of_int (2 ^ nat (bitlen n))" by (simp only: of_int_le_iff)
  also have "real_of_int (2 ^ nat (bitlen n)) = 2 powi (bitlen n - 1 + 1)"
    using bl by (simp add: power_int_nonneg_exp)
  finally have "\<bar>r\<bar> < 2 powi (binade r + 1)" unfolding b .
  with 1 show ?thesis by blast
next
  case False
  hence small: "\<bar>r\<bar> < 1" by simp
  have rpos: "0 < \<bar>r\<bar>" using assms by simp
  define t where "t = 1 / \<bar>r\<bar>"
  have t1: "1 < t" unfolding t_def using small rpos by simp
  define m where "m = \<lceil>t\<rceil> - 1"
  have mpos: "0 < m" unfolding m_def using t1 by linarith
  from bitlen_bounds [OF mpos]
  have lo: "2 ^ nat (bitlen m - 1) \<le> m" and hi: "m < 2 ^ nat (bitlen m)" by simp_all
  have bl: "1 \<le> bitlen m" using mpos by (auto simp: bitlen_alt_def)
  have b: "binade r = - bitlen m" using False by (simp add: binade_def m_def t_def)
  have r: "\<bar>r\<bar> = 1 / t" unfolding t_def by simp
  have tpos: "0 < t" using t1 by simp
  \<comment> \<open>\<open>t \<le> m + 1 \<le> 2 ^ bitlen m\<close>\<close>
  have "t \<le> of_int (m + 1)" unfolding m_def by simp
  also have "m + 1 \<le> 2 ^ nat (bitlen m)" using hi by simp
  hence "real_of_int (m + 1) \<le> of_int (2 ^ nat (bitlen m))" by (simp only: of_int_le_iff)
  also have "real_of_int (2 ^ nat (bitlen m)) = 2 powi (bitlen m)"
    using bl by (simp add: power_int_nonneg_exp)
  finally have "t \<le> 2 powi (bitlen m)" .
  hence "1 / 2 powi (bitlen m) \<le> 1 / t" using tpos by (simp add: frac_le)
  hence 1: "2 powi binade r \<le> \<bar>r\<bar>" unfolding b r by (simp add: power_int_minus_divide)
  \<comment> \<open>\<open>2 ^ (bitlen m - 1) \<le> m < t\<close>\<close>
  have "(2::real) powi (bitlen m - 1) = of_int (2 ^ nat (bitlen m - 1))"
    using bl by (simp add: power_int_nonneg_exp)
  also have "\<dots> \<le> of_int m" using lo by (simp only: of_int_le_iff)
  also have "of_int m < t" unfolding m_def by linarith
  finally have "2 powi (bitlen m - 1) < t" .
  hence "1 / t < 1 / 2 powi (bitlen m - 1)" by (simp add: frac_less2)
  also have "1 / (2::real) powi (bitlen m - 1) = 2 powi (- (bitlen m - 1))"
    by (simp only: power_int_minus_divide)
  also have "- (bitlen m - 1) = - bitlen m + 1" by simp
  finally have "\<bar>r\<bar> < 2 powi (binade r + 1)" unfolding b r .
  with 1 show ?thesis by blast
qed

lemma binade_eq:
  assumes "2 powi E \<le> \<bar>r\<bar>" and "\<bar>r\<bar> < 2 powi (E + 1)"
  shows "binade r = E"
proof -
  have "0 < (2::real) powi E" by simp
  from this assms(1) have "0 < \<bar>r\<bar>" by (rule less_le_trans)
  hence "r \<noteq> 0" by simp
  from binade_bounds [OF this]
  have b1: "2 powi binade r \<le> \<bar>r\<bar>" and b2: "\<bar>r\<bar> < 2 powi (binade r + 1)" by simp_all
  from b1 assms(2) have "(2::real) powi binade r < 2 powi (E + 1)" by (rule le_less_trans)
  hence "binade r < E + 1" by (rule pow2_less_imp)
  moreover from assms(1) b2 have "(2::real) powi E < 2 powi (binade r + 1)"
    by (rule le_less_trans)
  hence "E < binade r + 1" by (rule pow2_less_imp)
  ultimately show ?thesis by simp
qed

lemma rnd_eval_overflow_check:
  assumes "2 powi E \<le> \<bar>r\<bar>" and "\<bar>r\<bar> < 2 powi (E + 1)"
    and "e = max (E - 52) (- 1074)"
    and "round_half_even (r / 2 powi e) = n"
  shows "rnd r = overflow_check r (of_int n * 2 powi e)"
proof -
  have "0 < (2::real) powi E" by simp
  from this assms(1) have "0 < \<bar>r\<bar>" by (rule less_le_trans)
  hence "r \<noteq> 0" by simp
  thus ?thesis using assms(3,4) binade_eq [OF assms(1,2)]
    by (simp add: rnd_def Let_def)
qed

lemma rnd_eval:
  assumes "2 powi E \<le> \<bar>r\<bar>" and "\<bar>r\<bar> < 2 powi (E + 1)"
    and "e = max (E - 52) (- 1074)"
    and "round_half_even (r / 2 powi e) = n"
    and "\<bar>of_int n * 2 powi e\<bar> < huge"
  shows "rnd r = Fin (of_int n * 2 powi e)"
  using rnd_eval_overflow_check [OF assms(1-4)] assms(5)
  by (simp add: overflow_check_def)

lemma rnd_nonzero:
  assumes "r \<noteq> 0"
  obtains E e n where "2 powi E \<le> \<bar>r\<bar>" and "\<bar>r\<bar> < 2 powi (E + 1)"
    and "e = max (E - 52) (- 1074)" and "n = round_half_even (r / 2 powi e)"
    and "rnd r = overflow_check r (of_int n * 2 powi e)"
proof -
  let ?E = "binade r"
  let ?e = "max (?E - 52) (- 1074)"
  let ?n = "round_half_even (r / 2 powi ?e)"
  have "rnd r = overflow_check r (of_int ?n * 2 powi ?e)"
    using assms by (simp add: rnd_def Let_def)
  with binade_bounds [OF assms] show thesis
    by (intro that [of ?E ?e ?n]) simp_all
qed



lemma rnd_pos_min:
  assumes "rnd s = Fin s" and "0 < s"
  shows "2 powi (- 1074) \<le> s"
proof -
  from assms(2) have "s \<noteq> 0" by simp
  then obtain E e n where e: "e = max (E - 52) (- 1074)"
    and n: "n = round_half_even (s / 2 powi e)"
    and s: "rnd s = overflow_check s (of_int n * 2 powi e)"
    by (rule rnd_nonzero)
  from s assms(1) have seq: "s = of_int n * 2 powi e"
    by (auto simp: overflow_check_def split: if_splits)
  have "0 < real_of_int n * 2 powi e" using assms(2) seq by simp
  moreover have "0 < (2::real) powi e" by simp
  ultimately have "0 < real_of_int n" by (rule zero_less_mult_pos2)
  hence "1 \<le> n" by simp
  hence "1 \<le> real_of_int n" by simp
  have "(2::real) powi (- 1074) \<le> 2 powi e"
    unfolding e by (intro power_int_increasing) simp_all
  also have "\<dots> = 1 * 2 powi e" by simp
  also have "\<dots> \<le> real_of_int n * 2 powi e"
    using \<open>1 \<le> real_of_int n\<close> by (intro mult_right_mono) simp_all
  finally show ?thesis unfolding seq .
qed

lemma rnd_pos_of_min:
  assumes "2 powi (- 1074) \<le> r"
  shows "rnd r \<noteq> Fin 0"
proof -
  have "0 < (2::real) powi (- 1074)" by simp
  from this assms have pos: "0 < r" by (rule less_le_trans)
  hence "r \<noteq> 0" by simp
  then obtain E e n where E: "2 powi E \<le> \<bar>r\<bar>" and E1: "\<bar>r\<bar> < 2 powi (E + 1)"
    and e: "e = max (E - 52) (- 1074)"
    and n: "n = round_half_even (r / 2 powi e)"
    and r: "rnd r = overflow_check r (of_int n * 2 powi e)"
    by (rule rnd_nonzero)
  have "2 powi (- 1074) \<le> r" by fact
  also have "r < 2 powi (E + 1)" using E1 pos by simp
  finally have "- 1074 < E + 1" by (rule pow2_less_imp)
  hence "e \<le> E" unfolding e by simp
  hence "(2::real) powi e \<le> 2 powi E" by (intro power_int_increasing) simp_all
  also have "\<dots> \<le> r" using E pos by simp
  finally have "of_int 1 \<le> r / 2 powi e" by (simp add: pos_le_divide_eq)
  hence "1 \<le> n" unfolding n by (rule rhe_ge)
  hence "0 < real_of_int n * 2 powi e" by simp
  thus ?thesis using r pos by (auto simp: overflow_check_def split: if_splits)
qed



lemma rnd_1: "rnd 1 = Fin 1"
  by (subst rnd_eval [where E = 0 and e = "- 52" and n = "2 ^ 52"])
     (simp_all add: round_half_even_def Let_def power_int_minus huge_def)


lemma rnd_half: "rnd (1 / 2) = Fin (1 / 2)"
  by (subst rnd_eval [where E = "- 1" and e = "- 53" and n = "2 ^ 52"])
     (simp_all add: round_half_even_def Let_def power_int_minus huge_def)


lemma rnd_2: "rnd 2 = Fin 2"
  by (subst rnd_eval [where E = 1 and e = "- 51" and n = "2 ^ 52"])
     (simp_all add: round_half_even_def Let_def power_int_minus huge_def)










subsection \<open>Operations on non-negative doubles\<close>

lemma nonneg_doubleE:
  assumes "nonneg_double a"
  obtains v where "a = Fin v" and "0 \<le> v" and "rnd v = Fin v"
  using assms by (cases a) simp_all

lemma pos_doubleE:
  assumes "pos_double a"
  obtains v where "a = Fin v" and "0 < v" and "rnd v = Fin v"
  using assms by (cases a) simp_all










lemma sum_not_zero:
  assumes "0 < s" and "rnd s = Fin s" and "0 \<le> i"
  shows "fadd (Fin s) (Fin i) \<noteq> Fin 0"
proof -
  from assms(2,1) have "2 powi (- 1074) \<le> s" by (rule rnd_pos_min)
  also have "s \<le> s + i" using assms(3) by simp
  finally have "rnd (s + i) \<noteq> Fin 0" by (rule rnd_pos_of_min)
  thus ?thesis by simp
qed





subsection \<open>Evaluations in double precision\<close>

text \<open>
  Each step names the binade \<open>E\<close>, the spacing \<open>2^e\<close> and the rounded multiple \<open>n\<close>;
  the simplifier checks them.
\<close>

lemma lit_0_1: "py_float (1 / 10) = Fin (7205759403792794 / 2 ^ 56)"
  by (simp only: py_float_def)
     (subst rnd_eval [where E = "- 4" and e = "- 56" and n = 7205759403792794];
      simp add: round_half_even_def Let_def power_int_minus huge_def)

lemma lit_1em6: "py_float (1 / 10 ^ 6) = Fin (4722366482869645 / 2 ^ 72)"
  by (simp only: py_float_def)
     (subst rnd_eval [where E = "- 20" and e = "- 72" and n = 4722366482869645];
      simp add: round_half_even_def Let_def power_int_minus huge_def)

lemma lit_1em9: "py_float (1 / 10 ^ 9) = Fin (4835703278458517 / 2 ^ 82)"
  by (simp only: py_float_def)
     (subst rnd_eval [where E = "- 30" and e = "- 82" and n = 4835703278458517];
      simp add: round_half_even_def Let_def power_int_minus huge_def)

lemma lit_99: "py_float (9999999999999999 / 10 ^ 14) = Fin (7036874417766399 / 2 ^ 46)"
  by (simp only: py_float_def)
     (subst rnd_eval [where E = 6 and e = "- 46" and n = 7036874417766399];
      simp add: round_half_even_def Let_def power_int_minus huge_def)

lemma sinr_step_signal:
  "fmul (Fin (7205759403792794 / 2 ^ 56)) (Fin (4722366482869645 / 2 ^ 72))
     = Fin (7555786372591432 / 2 ^ 76)"
  by (simp only: fmul.simps)
     (subst rnd_eval [where E = "- 24" and e = "- 76" and n = 7555786372591432];
      simp add: round_half_even_def Let_def power_int_minus huge_def)

lemma sinr_step_noise:
  "fadd (Fin (4835703278458517 / 2 ^ 82)) (Fin 0)
     = Fin (4835703278458517 / 2 ^ 82)"
  by (simp only: fadd.simps)
     (subst rnd_eval [where E = "- 30" and e = "- 82" and n = 4835703278458517];
      simp add: round_half_even_def Let_def power_int_minus huge_def)

lemma sinr_step_quotient:
  "fdiv (Fin (7555786372591432 / 2 ^ 76)) (Fin (4835703278458517 / 2 ^ 82))
     = Fin (7036874417766399 / 2 ^ 46)"
  by (simp only: fdiv.simps)
     (subst rnd_eval [where E = 6 and e = "- 46" and n = 7036874417766399];
      simp add: round_half_even_def Let_def power_int_minus huge_def)

























lemma sinr_scenario:
  "calculate_sinr_eu_to_bs_f64 (py_float (1 / 10)) (py_float (1 / 10 ^ 6))
     (py_float (1 / 10 ^ 9)) (Fin 0) = Inr (Fin (7036874417766399 / 2 ^ 46))"
  by (simp only: calculate_sinr_eu_to_bs_f64_def py_truediv_f64_def lit_0_1 lit_1em6 lit_1em9
      sinr_step_signal sinr_step_noise sinr_step_quotient) simp





subsection \<open>Non-negative times and energies\<close>
















subsection \<open>Signal quality\<close>

text \<open>
  C6, as stated, ends: for \<open>P = 0.1\<close>, \<open>G = 1e-6\<close>, \<open>sigma_sq = 1e-9\<close> and interference
  \<open>0\<close> the SINR from EU to BS returned is \<open>100\<close>. In double precision the product
  \<open>0.1 * 1e-6\<close> is rounded, and the call returns \<open>99.99999999999999\<close>, the double just
  below \<open>100\<close>.
\<close>

theorem sinr_scenario_counterexample:
  "calculate_sinr_eu_to_bs_f64 (py_float (1 / 10)) (py_float (1 / 10 ^ 6))
     (py_float (1 / 10 ^ 9)) (Fin 0) = Inr (py_float (9999999999999999 / 10 ^ 14))
   \<and> calculate_sinr_eu_to_bs_f64 (py_float (1 / 10)) (py_float (1 / 10 ^ 6))
     (py_float (1 / 10 ^ 9)) (Fin 0) \<noteq> Inr (Fin 100)"
  by (simp only: sinr_scenario lit_99) simp

text \<open>
  C6, amended: for doubles \<open>P \<ge> 0\<close>, \<open>G \<ge> 0\<close>, \<open>sigma_sq > 0\<close> and interference \<open>\<ge> 0\<close>
  the SINR from EU to BS returns, without raising, the quotient of the product \<open>P * G\<close> by
  the sum \<open>sigma_sq + interference\<close>, each of the three operations rounded to a double;
  the SINR from BS to ID is the one from EU to BS with interference \<open>0\<close>; and for
  \<open>P = 0.1\<close>, \<open>G = 1e-6\<close>, \<open>sigma_sq = 1e-9\<close>, interference \<open>0\<close> the SINR from EU to BS
  returned is \<open>100 - 2^(-46)\<close>, which prints as \<open>99.99999999999999\<close>.
\<close>

theorem sinr_formula:
  assumes "nonneg_double P" and "nonneg_double G" and "pos_double sigma_sq"
    and "nonneg_double interference"
  shows "calculate_sinr_eu_to_bs_f64 P G sigma_sq interference
           = Inr (fdiv (fmul P G) (fadd sigma_sq interference))
       \<and> calculate_sinr_bs_to_id_f64 P G sigma_sq
           = calculate_sinr_eu_to_bs_f64 P G sigma_sq (Fin 0)
       \<and> calculate_sinr_eu_to_bs_f64 (py_float (1 / 10)) (py_float (1 / 10 ^ 6))
             (py_float (1 / 10 ^ 9)) (Fin 0) = Inr (Fin (100 - 1 / 2 ^ 46))"
proof (intro conjI)
  from assms(3) obtain s where s: "sigma_sq = Fin s" "0 < s" "rnd s = Fin s"
    by (rule pos_doubleE)
  from assms(4) obtain i where i: "interference = Fin i" "0 \<le> i"
    by (rule nonneg_doubleE)
  from s(2,3) i(2) have "fadd (Fin s) (Fin i) \<noteq> Fin 0" by (rule sum_not_zero)
  thus "calculate_sinr_eu_to_bs_f64 P G sigma_sq interference
      = Inr (fdiv (fmul P G) (fadd sigma_sq interference))"
    unfolding s(1) i(1) by (simp add: calculate_sinr_eu_to_bs_f64_def py_truediv_f64_def)
  have "fadd (Fin s) (Fin 0) = Fin s" using s(3) by simp
  thus "calculate_sinr_bs_to_id_f64 P G sigma_sq
      = calculate_sinr_eu_to_bs_f64 P G sigma_sq (Fin 0)"
    unfolding s(1)
    by (simp only: calculate_sinr_bs_to_id_f64_def calculate_sinr_eu_to_bs_f64_def)
  have "(7036874417766399 / 2 ^ 46 :: real) = 100 - 1 / 2 ^ 46" by simp
  thus "calculate_sinr_eu_to_bs_f64 (py_float (1 / 10)) (py_float (1 / 10 ^ 6))
      (py_float (1 / 10 ^ 9)) (Fin 0) = Inr (Fin (100 - 1 / 2 ^ 46))"
    by (simp only: sinr_scenario)
qed

theorem sinr_formula_witness:
  "nonneg_double (Fin 1) \<and> pos_double (Fin 1)
   \<and> calculate_sinr_eu_to_bs_f64 (Fin 1) (Fin 1) (Fin 1) (Fin 1) = Inr (Fin (1 / 2))
   \<and> calculate_sinr_bs_to_id_f64 (Fin 1) (Fin 1) (Fin 1)
        = calculate_sinr_eu_to_bs_f64 (Fin 1) (Fin 1) (Fin 1) (Fin 0)"
  using sinr_formula [of "Fin 1" "Fin 1" "Fin 1" "Fin 1"]
  by (simp add: rnd_1 rnd_2 rnd_half)

subsection \<open>Energy of the offloaded slice\<close>




end
